theory Spec2Isabelle
  imports Main
begin

section \<open>The m.css configuration module of Tephra's documentation build\<close>

text \<open>
  The file \<^verbatim>\<open>build/mcssconf.py\<close> is a Python module of six top-level assignments.
  Its values are string literals, list displays and tuple displays, so a Python value is
  a string, a tuple of values or a list of values. Tuples and lists are kept apart: the
  module's navigation entries are tuples, their sub-menus are lists.
\<close>

datatype pyval =
    PyStr string
  | PyTuple "pyval list"
  | PyList "pyval list"

subsection \<open>The six values, in source order\<close>

definition DOXYFILE :: pyval where
  "DOXYFILE = PyStr ''Doxyfile-mcss''"

definition MAIN_PROJECT_URL :: pyval where
  "MAIN_PROJECT_URL = PyStr ''https://github.com/Dolkar/Tephra''"

definition LINKS_NAVBAR1 :: pyval where
  "LINKS_NAVBAR1 = PyList
    [ PyTuple [PyStr ''User Guide'', PyStr ''user-guide'', PyList []],
      PyTuple [PyStr ''Examples'', PyStr ''examples'', PyList []] ]"

text \<open>
  The second entry of \<^verbatim>\<open>LINKS_NAVBAR2\<close> is a pair: an anchor element written out as
  markup, then the sub-menu. The source writes the first double quote of the attribute
  as the escape \<^verbatim>\<open>\"\<close> inside a single-quoted literal, which Python reads as the
  double quote itself (character 0x22); the closing one is written plainly.
\<close>

definition discussions_markup :: string where
  "discussions_markup =
     ''<a href='' @ [CHR 0x22] @ ''https://github.com/Dolkar/Tephra/discussions''
       @ [CHR 0x22] @ ''>Discussions</a>''"

definition LINKS_NAVBAR2 :: pyval where
  "LINKS_NAVBAR2 = PyList
    [ PyTuple [PyStr ''Changelog'', PyStr ''changelog'', PyList []],
      PyTuple [PyStr discussions_markup, PyList []],
      PyTuple [PyStr ''API'', PyStr ''annotated'', PyList []] ]"

definition STYLESHEETS :: pyval where
  "STYLESHEETS = PyList
    [ PyStr ''https://fonts.googleapis.com/css?family=Source+Sans+Pro:400,400i,600,600i%7CSource+Code+Pro:400,400i,600'',
      PyStr ''./mcss/css/m-dark-tephra.css'',
      PyStr ''./mcss/css/m-documentation.css'',
      PyStr ''./mcss/css/m-theme-dark-tephra.css'',
      PyStr ''./mcss/css/m-grid.css'',
      PyStr ''./mcss/css/m-components.css'',
      PyStr ''./mcss/css/m-layout.css'',
      PyStr ''./mcss/css/pygments-dark.css'',
      PyStr ''./mcss/css/pygments-console.css'' ]"

definition THEME_COLOR :: pyval where
  "THEME_COLOR = PyStr ''#2c1b15''"

subsection \<open>Executing the module\<close>

text \<open>
  The module body is a sequence of assignment statements, the only kind of statement the
  file contains. Executing one binds its target in the module namespace, replacing any
  earlier binding of that name, as Python does.
\<close>

datatype stmt = Assign string pyval

type_synonym env = "string \<rightharpoonup> pyval"

fun target :: "stmt \<Rightarrow> string" where
  "target (Assign n v) = n"

fun exec_stmt :: "stmt \<Rightarrow> env \<Rightarrow> env" where
  "exec_stmt (Assign n v) e = e(n \<mapsto> v)"

definition run :: "stmt list \<Rightarrow> env" where
  "run p = fold exec_stmt p Map.empty"

definition mcssconf :: "stmt list" where
  "mcssconf =
    [ Assign ''DOXYFILE'' DOXYFILE,
      Assign ''MAIN_PROJECT_URL'' MAIN_PROJECT_URL,
      Assign ''LINKS_NAVBAR1'' LINKS_NAVBAR1,
      Assign ''LINKS_NAVBAR2'' LINKS_NAVBAR2,
      Assign ''STYLESHEETS'' STYLESHEETS,
      Assign ''THEME_COLOR'' THEME_COLOR ]"

definition module_env :: env where
  "module_env = run mcssconf"

subsection \<open>Reading values\<close>

fun elems :: "pyval \<Rightarrow> pyval list" where
  "elems (PyList xs) = xs"
| "elems (PyTuple xs) = xs"
| "elems (PyStr s) = []"

fun is_str :: "pyval \<Rightarrow> bool" where
  "is_str (PyStr s) = True"
| "is_str v = False"

fun is_list :: "pyval \<Rightarrow> bool" where
  "is_list (PyList xs) = True"
| "is_list v = False"

fun tuple_len :: "pyval \<Rightarrow> nat option" where
  "tuple_len (PyTuple xs) = Some (length xs)"
| "tuple_len v = None"

text \<open>The label of a navigation entry is the first component of its tuple.\<close>

fun label :: "pyval \<Rightarrow> string option" where
  "label (PyTuple (PyStr s # xs)) = Some s"
| "label v = None"

text \<open>
  A navigation entry in the three-component form: label, destination identifier,
  nested list.
\<close>

fun is_triple_entry :: "pyval \<Rightarrow> bool" where
  "is_triple_entry (PyTuple [PyStr l, PyStr d, PyList sub]) = True"
| "is_triple_entry v = False"

text \<open>A navigation entry in the two-component form: markup, nested list.\<close>

fun is_markup_entry :: "pyval \<Rightarrow> bool" where
  "is_markup_entry (PyTuple [PyStr m, PyList sub]) = True"
| "is_markup_entry v = False"

text \<open>The sub-menu of a navigation entry is the final component of its tuple.\<close>

fun sub_links :: "pyval \<Rightarrow> pyval list option" where
  "sub_links (PyTuple []) = None"
| "sub_links (PyTuple (x # xs)) =
     (case last (x # xs) of PyList sub \<Rightarrow> Some sub | _ \<Rightarrow> None)"
| "sub_links v = None"

subsection \<open>Shapes of the fields\<close>

text \<open>
  An entry of a navigation list is a tuple that ends in a nested list and has one or
  more strings before it; a navigation list is a list of such entries.
\<close>

fun is_nav_entry :: "pyval \<Rightarrow> bool" where
  "is_nav_entry (PyTuple []) = False"
| "is_nav_entry (PyTuple (x # xs)) =
     (xs \<noteq> [] \<and> list_all is_str (butlast (x # xs)) \<and> is_list (last (x # xs)))"
| "is_nav_entry v = False"

fun is_nav_list :: "pyval \<Rightarrow> bool" where
  "is_nav_list (PyList xs) = list_all is_nav_entry xs"
| "is_nav_list v = False"

fun is_str_list :: "pyval \<Rightarrow> bool" where
  "is_str_list (PyList xs) = list_all is_str xs"
| "is_str_list v = False"

text \<open>A field of the module holds a value of a given shape.\<close>

definition field_is :: "string \<Rightarrow> (pyval \<Rightarrow> bool) \<Rightarrow> bool" where
  "field_is n P = (case module_env n of Some v \<Rightarrow> P v | None \<Rightarrow> False)"

subsection \<open>Colours and locations\<close>

definition is_hex_digit :: "char \<Rightarrow> bool" where
  "is_hex_digit c = (c \<in> set ''0123456789abcdefABCDEF'')"

text \<open>The pattern \<^verbatim>\<open>#\<close> followed by six hexadecimal digits.\<close>

fun is_hex_color :: "string \<Rightarrow> bool" where
  "is_hex_color [] = False"
| "is_hex_color (c # cs) = (c = CHR ''#'' \<and> length cs = 6 \<and> list_all is_hex_digit cs)"

definition is_alpha :: "char \<Rightarrow> bool" where
  "is_alpha c = (c \<in> set ''abcdefghijklmnopqrstuvwxyzABCDEFGHIJKLMNOPQRSTUVWXYZ'')"

definition is_scheme_char :: "char \<Rightarrow> bool" where
  "is_scheme_char c = (is_alpha c \<or> c \<in> set ''0123456789+-.'')"

text \<open>
  The characters of a path segment: letters, digits, the unreserved and sub-delimiter
  marks, colon, at sign, and the percent sign of an escape.
\<close>

definition is_path_char :: "char \<Rightarrow> bool" where
  "is_path_char c =
     (is_alpha c \<or> c \<in> set ''0123456789-._~!$&()*+,;=:@%'' \<or> c = CHR 0x27)"

text \<open>The characters of a URL: those of a segment and the delimiters between parts.\<close>

definition is_url_char :: "char \<Rightarrow> bool" where
  "is_url_char c = (is_path_char c \<or> c \<in> set ''/?#[]'')"

text \<open>Every percent sign starts an escape of two hexadecimal digits.\<close>

fun pct_ok :: "string \<Rightarrow> bool" where
  "pct_ok [] = True"
| "pct_ok (c # cs) =
     (if c = CHR ''%''
      then (case cs of
              a # b # rest \<Rightarrow> is_hex_digit a \<and> is_hex_digit b \<and> pct_ok rest
            | _ \<Rightarrow> False)
      else pct_ok cs)"

text \<open>
  The scheme of a string, when it starts with one: a letter, then letters, digits,
  plus, minus or dot, up to a colon.
\<close>

definition scheme_of :: "string \<Rightarrow> string option" where
  "scheme_of s =
     (case takeWhile is_scheme_char s of
        [] \<Rightarrow> None
      | c # cs \<Rightarrow>
          if is_alpha c \<and> take 1 (drop (Suc (length cs)) s) = '':''
          then Some (c # cs) else None)"

text \<open>
  An absolute URL is a scheme, a colon, two slashes and a non-empty host, then
  whatever path, query and fragment follow; it is written in URL characters only and
  its escapes are complete.
\<close>

definition is_absolute_url :: "string \<Rightarrow> bool" where
  "is_absolute_url s =
     (case scheme_of s of
        None \<Rightarrow> False
      | Some sch \<Rightarrow>
          take 2 (drop (length sch + 1) s) = ''//'' \<and>
          takeWhile (\<lambda>c. c \<notin> set ''/?#'') (drop (length sch + 3) s) \<noteq> [] \<and>
          list_all is_url_char s \<and> pct_ok s)"

text \<open>The segments of a path: the pieces between its slashes.\<close>

fun segments :: "string \<Rightarrow> string list" where
  "segments [] = [[]]"
| "segments (c # cs) =
     (if c = CHR ''/'' then [] # segments cs
      else (case segments cs of
              [] \<Rightarrow> [[c]]
            | seg # segs \<Rightarrow> (c # seg) # segs))"

text \<open>
  A relative path has no empty segment, so it neither starts at the root nor ends in
  a slash; its first segment holds no colon, so it names no scheme; its segments are
  written in segment characters only and its escapes are complete.
\<close>

definition is_relative_path :: "string \<Rightarrow> bool" where
  "is_relative_path s =
     (case segments s of
        [] \<Rightarrow> False
      | seg # segs \<Rightarrow>
          CHR '':'' \<notin> set seg \<and>
          list_all (\<lambda>g. g \<noteq> [] \<and> list_all is_path_char g) (seg # segs) \<and>
          pct_ok s)"

text \<open>
  Resolving segments against a directory, itself a list of names below the root: a
  single dot stays, a double dot goes to the parent and fails at the root, any other
  segment goes down.
\<close>

fun resolve_segs :: "string list \<Rightarrow> string list \<Rightarrow> string list option" where
  "resolve_segs dir [] = Some dir"
| "resolve_segs dir (seg # segs) =
     (if seg = ''.'' then resolve_segs dir segs
      else if seg = ''..''
        then (if dir = [] then None else resolve_segs (butlast dir) segs)
      else resolve_segs (dir @ [seg]) segs)"

definition resolve :: "string list \<Rightarrow> string \<Rightarrow> string list option" where
  "resolve dir s = resolve_segs dir (segments s)"

text \<open>A path, resolved against a directory, names something strictly inside it.\<close>

definition within_dir :: "string list \<Rightarrow> string \<Rightarrow> bool" where
  "within_dir dir s =
     (case resolve dir s of
        None \<Rightarrow> False
      | Some q \<Rightarrow> length dir < length q \<and> take (length dir) q = dir)"

text \<open>
  A stylesheet location, for an output directory \<open>out\<close>: an absolute URL, or a relative
  path that resolved against \<open>out\<close> names a file inside it.
\<close>

fun is_location :: "string list \<Rightarrow> pyval \<Rightarrow> bool" where
  "is_location out (PyStr s) = (is_absolute_url s \<or> (is_relative_path s \<and> within_dir out s))"
| "is_location out v = False"

section \<open>Properties of module execution\<close>

text \<open>
  Executing a statement list changes only the names it assigns, so with pairwise
  different targets a binding made by a prefix of the module survives every longer
  prefix.
\<close>

lemma run_append: "run (p @ q) = fold exec_stmt q (run p)"
  by (simp add: run_def)

lemma fold_exec_other:
  "n \<notin> target ` set q \<Longrightarrow> fold exec_stmt q e n = e n"
proof (induction q arbitrary: e)
  case Nil
  then show ?case by simp
next
  case (Cons s q)
  obtain m v where s: "s = Assign m v" by (cases s)
  from Cons.prems s have ne: "n \<noteq> m" and rest: "n \<notin> target ` set q" by auto
  have "fold exec_stmt (s # q) e n = fold exec_stmt q (exec_stmt s e) n" by simp
  also have "\<dots> = exec_stmt s e n" using rest by (rule Cons.IH)
  also have "\<dots> = e n" using s ne by simp
  finally show ?case .
qed

lemma fold_exec_dom:
  "fold exec_stmt q e n = Some v \<Longrightarrow> n \<in> target ` set q \<or> e n = Some v"
  using fold_exec_other [of n q e] by metis

lemma run_bound_is_target: "run p n = Some v \<Longrightarrow> n \<in> target ` set p"
  using fold_exec_dom [of p Map.empty n v] by (simp add: run_def)

lemma run_prefix_stable:
  assumes d: "distinct (map target p)"
    and kj: "k \<le> j"
    and b: "run (take k p) n = Some v"
  shows "run (take j p) n = Some v"
proof -
  let ?a = "take k p" and ?b = "drop k (take j p)"
  have split: "take j p = ?a @ ?b"
    using kj by (metis append_take_drop_id min.absorb1 take_take)
  have "distinct (map target (take j p))"
    using d by (simp add: distinct_take take_map [symmetric])
  then have "distinct (map target ?a @ map target ?b)"
    using split by (metis map_append)
  then have disj: "target ` set ?a \<inter> target ` set ?b = {}"
    by simp
  from b have "n \<in> target ` set ?a" by (rule run_bound_is_target)
  with disj have "n \<notin> target ` set ?b" by blast
  then have "fold exec_stmt ?b (run ?a) n = run ?a n" by (rule fold_exec_other)
  then have "run (?a @ ?b) n = run ?a n" by (simp add: run_append)
  with split b show ?thesis by simp
qed

lemma mcssconf_targets_distinct: "distinct (map target mcssconf)"
  by (simp add: mcssconf_def)

lemma module_env_lookups:
  "module_env ''DOXYFILE'' = Some DOXYFILE"
  "module_env ''MAIN_PROJECT_URL'' = Some MAIN_PROJECT_URL"
  "module_env ''LINKS_NAVBAR1'' = Some LINKS_NAVBAR1"
  "module_env ''LINKS_NAVBAR2'' = Some LINKS_NAVBAR2"
  "module_env ''STYLESHEETS'' = Some STYLESHEETS"
  "module_env ''THEME_COLOR'' = Some THEME_COLOR"
  by (simp_all add: module_env_def run_def mcssconf_def)

lemma module_env_dom:
  "dom module_env =
     {''DOXYFILE'', ''MAIN_PROJECT_URL'', ''LINKS_NAVBAR1'', ''LINKS_NAVBAR2'',
      ''STYLESHEETS'', ''THEME_COLOR''}"
  by (auto simp add: module_env_def run_def mcssconf_def split: if_splits)

section \<open>The declared values\<close>

text \<open>
  C1, as stated, at the second entry of \<^verbatim>\<open>LINKS_NAVBAR2\<close>: that entry is a tuple
  of two components, the markup string and the nested list, not of three.
\<close>

theorem navbar2_markup_entry_is_pair:
  "elems LINKS_NAVBAR2 ! 1 = PyTuple [PyStr discussions_markup, PyList []]
   \<and> tuple_len (elems LINKS_NAVBAR2 ! 1) = Some 2
   \<and> \<not> is_triple_entry (elems LINKS_NAVBAR2 ! 1)"
  by (simp add: LINKS_NAVBAR2_def)

text \<open>
  C1, amended: every entry of \<^verbatim>\<open>LINKS_NAVBAR1\<close> is a tuple of exactly three
  components (label, destination identifier, nested list); every entry of
  \<^verbatim>\<open>LINKS_NAVBAR2\<close> is either such a triple or a pair of a markup string and a
  nested list, and its entries have three, two and three components in that order.
\<close>

theorem navbar_entry_shapes:
  "list_all is_triple_entry (elems LINKS_NAVBAR1)
   \<and> list_all (\<lambda>e. is_triple_entry e \<or> is_markup_entry e) (elems LINKS_NAVBAR2)
   \<and> map tuple_len (elems LINKS_NAVBAR1) = [Some 3, Some 3]
   \<and> map tuple_len (elems LINKS_NAVBAR2) = [Some 3, Some 2, Some 3]"
  by (simp add: LINKS_NAVBAR1_def LINKS_NAVBAR2_def)

text \<open>
  C2, as stated: the number of entries of \<^verbatim>\<open>LINKS_NAVBAR2\<close> is not 2.
\<close>

theorem navbar2_length_not_two: "length (elems LINKS_NAVBAR2) \<noteq> 2"
  by (simp add: LINKS_NAVBAR2_def)

text \<open>
  C2, amended: the secondary navigation list \<^verbatim>\<open>LINKS_NAVBAR2\<close> has exactly 3
  entries, whose first components are, in order, the label Changelog, the Discussions
  anchor markup and the label API.
\<close>

theorem navbar2_has_three_entries:
  "module_env ''LINKS_NAVBAR2'' = Some LINKS_NAVBAR2
   \<and> length (elems LINKS_NAVBAR2) = 3
   \<and> map label (elems LINKS_NAVBAR2)
       = [Some ''Changelog'', Some discussions_markup, Some ''API'']"
  by (simp add: module_env_lookups) (simp add: LINKS_NAVBAR2_def)

text \<open>
  C3: after the module has run, its namespace binds exactly six names. The config file
  reference, the project URL and the theme colour are strings, both navigation fields
  are lists of tuples that each end in a nested list, and the stylesheet field is a
  list of strings.
\<close>

theorem config_record_fields_and_types:
  "dom module_env =
     {''DOXYFILE'', ''MAIN_PROJECT_URL'', ''LINKS_NAVBAR1'', ''LINKS_NAVBAR2'',
      ''STYLESHEETS'', ''THEME_COLOR''}
   \<and> card (dom module_env) = 6
   \<and> field_is ''DOXYFILE'' is_str
   \<and> field_is ''MAIN_PROJECT_URL'' is_str
   \<and> field_is ''THEME_COLOR'' is_str
   \<and> field_is ''LINKS_NAVBAR1'' is_nav_list
   \<and> field_is ''LINKS_NAVBAR2'' is_nav_list
   \<and> field_is ''STYLESHEETS'' is_str_list"
proof -
  have "card (dom module_env) = 6"
    by (simp add: module_env_dom)
  moreover have "field_is ''DOXYFILE'' is_str" "field_is ''MAIN_PROJECT_URL'' is_str"
    "field_is ''THEME_COLOR'' is_str"
    by (simp_all add: field_is_def module_env_lookups DOXYFILE_def MAIN_PROJECT_URL_def
        THEME_COLOR_def)
  moreover have "field_is ''LINKS_NAVBAR1'' is_nav_list" "field_is ''LINKS_NAVBAR2'' is_nav_list"
    by (simp_all add: field_is_def module_env_lookups LINKS_NAVBAR1_def LINKS_NAVBAR2_def)
  moreover have "field_is ''STYLESHEETS'' is_str_list"
    by (simp add: field_is_def module_env_lookups STYLESHEETS_def)
  ultimately show ?thesis using module_env_dom by simp
qed

text \<open>
  C4: the theme colour is the string \<^verbatim>\<open>#2c1b15\<close>, which is a hash sign followed by
  six hexadecimal digits.
\<close>

theorem theme_color_value:
  "module_env ''THEME_COLOR'' = Some (PyStr ''#2c1b15'')
   \<and> THEME_COLOR = PyStr ''#2c1b15''
   \<and> is_hex_color ''#2c1b15''"
  by (simp add: module_env_lookups) (simp add: THEME_COLOR_def is_hex_digit_def)

text \<open>
  C5: the primary navigation list \<^verbatim>\<open>LINKS_NAVBAR1\<close> has exactly 2 entries; the
  first is labelled User Guide and the second Examples.
\<close>

theorem navbar1_two_entries_in_order:
  "module_env ''LINKS_NAVBAR1'' = Some LINKS_NAVBAR1
   \<and> length (elems LINKS_NAVBAR1) = 2
   \<and> label (elems LINKS_NAVBAR1 ! 0) = Some ''User Guide''
   \<and> label (elems LINKS_NAVBAR1 ! 1) = Some ''Examples''"
  by (simp add: module_env_lookups) (simp add: LINKS_NAVBAR1_def)

text \<open>
  C6: the stylesheet list has exactly 9 entries, and position by position they are the
  nine locations in the order the source lists them.
\<close>

theorem stylesheets_nine_in_order:
  "module_env ''STYLESHEETS'' = Some STYLESHEETS
   \<and> length (elems STYLESHEETS) = 9
   \<and> elems STYLESHEETS ! 0 = PyStr ''https://fonts.googleapis.com/css?family=Source+Sans+Pro:400,400i,600,600i%7CSource+Code+Pro:400,400i,600''
   \<and> elems STYLESHEETS ! 1 = PyStr ''./mcss/css/m-dark-tephra.css''
   \<and> elems STYLESHEETS ! 2 = PyStr ''./mcss/css/m-documentation.css''
   \<and> elems STYLESHEETS ! 3 = PyStr ''./mcss/css/m-theme-dark-tephra.css''
   \<and> elems STYLESHEETS ! 4 = PyStr ''./mcss/css/m-grid.css''
   \<and> elems STYLESHEETS ! 5 = PyStr ''./mcss/css/m-components.css''
   \<and> elems STYLESHEETS ! 6 = PyStr ''./mcss/css/m-layout.css''
   \<and> elems STYLESHEETS ! 7 = PyStr ''./mcss/css/pygments-dark.css''
   \<and> elems STYLESHEETS ! 8 = PyStr ''./mcss/css/pygments-console.css''"
  by (simp add: module_env_lookups) (simp add: STYLESHEETS_def)

text \<open>
  The two kinds of location are told apart: the first stylesheet is an absolute URL and
  no relative path, the other eight are relative paths and no absolute URLs. Strings
  that name another kind of scheme, an empty host, a rooted path, a directory, a blank
  or a path that leaves the directory are no locations.
\<close>

lemmas char_classes = is_alpha_def is_scheme_char_def is_path_char_def is_url_char_def
  is_hex_digit_def

lemma stylesheet_kinds:
  "map (\<lambda>e. case e of PyStr s \<Rightarrow> (is_absolute_url s, is_relative_path s) | _ \<Rightarrow> (False, False))
       (elems STYLESHEETS)
   = [(True, False), (False, True), (False, True), (False, True), (False, True),
      (False, True), (False, True), (False, True), (False, True)]"
  by (simp add: STYLESHEETS_def is_absolute_url_def is_relative_path_def scheme_of_def char_classes)

lemma location_rejects:
  "\<not> is_location out (PyStr ''mailto:a@b.c'')"
  "\<not> is_location out (PyStr ''https://'')"
  "\<not> is_location out (PyStr ''data:text/css,a'')"
  "\<not> is_location out (PyStr ''/mcss/css/m-grid.css'')"
  "\<not> is_location out (PyStr '''')"
  "\<not> is_location out (PyStr ''m grid.css'')"
  "\<not> is_location out (PyStr ''mcss/css/'')"
  "\<not> is_location [] (PyStr ''../m-grid.css'')"
  "\<not> is_location [''html''] (PyStr ''../m-grid.css'')"
  "\<not> is_location out (PyList [])"
  by (simp_all add: is_absolute_url_def is_relative_path_def scheme_of_def char_classes
      within_dir_def resolve_def)

text \<open>
  C7: every entry of the stylesheet list is a string that is an absolute URL or a
  path relative to the output directory: a relative path that, resolved against the
  output directory \<open>out\<close>, whichever it is, names a file inside it.
\<close>

theorem stylesheets_are_locations:
  "\<forall>e \<in> set (elems STYLESHEETS). is_location out e"
  by (simp add: STYLESHEETS_def is_absolute_url_def is_relative_path_def scheme_of_def
      char_classes within_dir_def resolve_def)

theorem stylesheets_are_locations_witness:
  "is_location [''docs'', ''html''] (PyStr ''./mcss/css/m-grid.css'')"
proof -
  have "PyStr ''./mcss/css/m-grid.css'' \<in> set (elems STYLESHEETS)"
    by (simp add: STYLESHEETS_def)
  then show ?thesis by (rule stylesheets_are_locations [rule_format])
qed

text \<open>
  C9: no statement of the module rebinds a name. A value that a field holds after the
  first \<open>k\<close> statements is the value it holds after any later statement and in the
  finished module namespace.
\<close>

theorem declared_fields_never_change:
  assumes "k \<le> j" and "j \<le> length mcssconf"
    and "run (take k mcssconf) n = Some v"
  shows "run (take j mcssconf) n = Some v \<and> module_env n = Some v"
proof -
  have "run (take j mcssconf) n = Some v"
    using mcssconf_targets_distinct assms(1) assms(3) by (rule run_prefix_stable)
  moreover have "run (take (length mcssconf) mcssconf) n = Some v"
    using mcssconf_targets_distinct _ assms(3)
    by (rule run_prefix_stable) (use assms in simp)
  ultimately show ?thesis by (simp add: module_env_def)
qed

theorem declared_fields_never_change_witness:
  "(1::nat) \<le> 4 \<and> 4 \<le> length mcssconf
   \<and> run (take 1 mcssconf) ''DOXYFILE'' = Some DOXYFILE
   \<and> run (take 4 mcssconf) ''DOXYFILE'' = Some DOXYFILE
   \<and> module_env ''DOXYFILE'' = Some DOXYFILE"
proof -
  have a: "(1::nat) \<le> 4" by simp
  have b: "4 \<le> length mcssconf" by (simp add: mcssconf_def)
  have c: "run (take 1 mcssconf) ''DOXYFILE'' = Some DOXYFILE"
    by (simp add: mcssconf_def run_def)
  from declared_fields_never_change [OF a b c] a b c show ?thesis by simp
qed

text \<open>
  C10: for every entry of \<^verbatim>\<open>LINKS_NAVBAR1\<close> and of \<^verbatim>\<open>LINKS_NAVBAR2\<close> the final
  tuple component is the empty list.
\<close>

theorem navbar_entries_have_no_sub_links:
  "\<forall>e \<in> set (elems LINKS_NAVBAR1) \<union> set (elems LINKS_NAVBAR2). sub_links e = Some []"
  by (simp add: LINKS_NAVBAR1_def LINKS_NAVBAR2_def)

theorem navbar_entries_have_no_sub_links_witness:
  "sub_links (PyTuple [PyStr discussions_markup, PyList []]) = Some []"
proof -
  have "PyTuple [PyStr discussions_markup, PyList []]
          \<in> set (elems LINKS_NAVBAR1) \<union> set (elems LINKS_NAVBAR2)"
    by (simp add: LINKS_NAVBAR2_def)
  then show ?thesis by (rule navbar_entries_have_no_sub_links [rule_format])
qed

end
